theory Spec2Isabelle
  imports Complex_Main
begin

section \<open>UltraStarAutoPitch: a model of main.py\<close>

text \<open>
  The program reads an UltraStar karaoke chart, obtains per-frame pitch and uncertainty
  estimates of the song from an external model, and rewrites the pitch column of every
  note line. The model below follows \<^verbatim>\<open>main.py\<close> function by function.

  Conventions of the model:
  \<^item> a Python \<^verbatim>\<open>str\<close> is a \<open>string\<close>; a chart is the list of strings that
    \<^verbatim>\<open>readlines\<close> returns, each with its line terminator, and the destination file is
    the list of strings passed to \<^verbatim>\<open>writelines\<close> (decoding, encoding and newline
    translation of text-mode files are not modelled);
  \<^item> every \<^verbatim>\<open>exit(...)\<close> and every exception the code can raise is a value of
    \<open>error\<close>, and a function that can fail returns \<open>error + 'a\<close>;
  \<^item> a Python \<^verbatim>\<open>float\<close> is the real number it stands for, and the arithmetic of
    \<^verbatim>\<open>pitch\<close> on tempo, gap and ticks rounds every result to double precision
    (\<open>fl\<close>); the numpy arrays of the pitch model and the two conversion functions are
    computed over the reals, with their integer conversions and rounding modes;
  \<^item> the builtins \<^verbatim>\<open>float(str)\<close> and \<^verbatim>\<open>int(str)\<close> are parameters
    \<open>pfloat\<close> and \<open>pint\<close> (\<open>None\<close> where the builtin raises \<^verbatim>\<open>ValueError\<close>);
    \<open>pfloat\<close> gives the double that \<^verbatim>\<open>float\<close> returns.
\<close>

subsection \<open>Errors\<close>

text \<open>
  The exits of the program, by their messages: \<open>ChartNotFound\<close> and \<open>ChartReadError\<close>
  (\<^verbatim>\<open>Karaoke file not found!\<close>, \<^verbatim>\<open>Something went wrong with reading the karaoke file.\<close>),
  \<open>AudioNotFound\<close> and \<open>AudioReadError\<close> likewise for the audio file,
  \<open>InvalidFormat line\<close> (\<^verbatim>\<open>Invalid format. Failed on:\<close> and the line),
  \<open>InvalidLine fields\<close> (\<^verbatim>\<open>Invalid line:\<close> and the fields),
  \<open>NoBpmTag\<close> and \<open>NoGapTag\<close> (\<^verbatim>\<open>No #BPM-Tag in header found!\<close>,
  \<^verbatim>\<open>No #GAP-Tag in header found!\<close>). The others are Python exceptions.
\<close>

datatype error =
    ChartNotFound
  | ChartReadError
  | AudioNotFound
  | AudioReadError
  | InvalidFormat string
  | InvalidLine "string list"
  | NoBpmTag
  | NoGapTag
  | IndexError
  | TypeError
  | ValueError
  | OverflowError
  | ZeroDivisionError

text \<open>What opening a file gives: \<^verbatim>\<open>OSError\<close>, another exception, or the contents.\<close>

datatype 'a opened = Missing | Unreadable | Contents 'a

subsection \<open>Python builtins used by the code\<close>

text \<open>\<^verbatim>\<open>s.startswith(p)\<close>\<close>

definition startswith :: "string \<Rightarrow> string \<Rightarrow> bool" where
  "startswith s p = (take (length p) s = p)"

text \<open>
  \<^verbatim>\<open>s.split(" ")\<close>: the pieces between single spaces; two spaces in a row give an
  empty piece, and the result always has at least one piece.
\<close>

fun split_sp :: "string \<Rightarrow> string list" where
  "split_sp [] = [[]]"
| "split_sp (c # cs) =
     (if c = CHR '' '' then [] # split_sp cs
      else (case split_sp cs of [] \<Rightarrow> [[c]] | t # ts \<Rightarrow> (c # t) # ts))"

text \<open>\<^verbatim>\<open>int(x)\<close> of a float: truncation toward zero.\<close>

definition py_int :: "real \<Rightarrow> int" where
  "py_int x = (if x < 0 then - \<lfloor>- x\<rfloor> else \<lfloor>x\<rfloor>)"

text \<open>\<^verbatim>\<open>str(n)\<close> of an integer.\<close>

fun str_nat :: "nat \<Rightarrow> string" where
  "str_nat n =
     (if n < 10 then [''0123456789'' ! n]
      else str_nat (n div 10) @ [''0123456789'' ! (n mod 10)])"

definition str_int :: "int \<Rightarrow> string" where
  "str_int i = (if i < 0 then CHR ''-'' # str_nat (nat (- i)) else str_nat (nat i))"

text \<open>
  \<^verbatim>\<open>xs[start:stop]\<close> on a list or a one-dimensional array. A negative bound counts
  from the end of the sequence; after that, a bound outside \<open>0..len\<close> is moved to the
  nearer end. The slice is empty when the resolved start is not before the resolved stop.
\<close>

definition slice_index :: "nat \<Rightarrow> int \<Rightarrow> nat" where
  "slice_index n i = (if i < 0 then nat (max (i + int n) 0) else min (nat i) n)"

definition py_slice :: "'a list \<Rightarrow> int \<Rightarrow> int \<Rightarrow> 'a list" where
  "py_slice xs start stop =
     (let lo = slice_index (length xs) start;
          hi = slice_index (length xs) stop
      in take (hi - lo) (drop lo xs))"

text \<open>
  \<^verbatim>\<open>xs[mask]\<close> with a boolean array: the entries of \<open>xs\<close> where the mask holds; numpy
  raises \<^verbatim>\<open>IndexError\<close> when the two lengths differ.
\<close>

definition mask_select :: "'a list \<Rightarrow> bool list \<Rightarrow> error + 'a list" where
  "mask_select xs keep =
     (if length keep \<noteq> length xs then Inl IndexError
      else Inr (map fst (filter snd (zip xs keep))))"

text \<open>\<^verbatim>\<open>np.median\<close> of a non-empty array.\<close>

definition median :: "real list \<Rightarrow> real" where
  "median xs =
     (let s = sort xs; n = length s
      in if even n then (s ! (n div 2 - 1) + s ! (n div 2)) / 2 else s ! (n div 2))"

text \<open>Rounding to the nearest integer, a tie to the even neighbour.\<close>

definition rne :: "real \<Rightarrow> int" where
  "rne x =
     (let f = \<lfloor>x\<rfloor>; r = x - of_int f
      in if r < 1 / 2 then f
         else if 1 / 2 < r then f + 1
         else if even f then f else f + 1)"

text \<open>\<^verbatim>\<open>np.round\<close> rounds this way.\<close>

definition np_round :: "real \<Rightarrow> int" where
  "np_round x = rne x"

subsection \<open>Double-precision arithmetic\<close>

text \<open>
  \<open>expo a\<close> is the binary exponent of a positive number \<open>a\<close>: the greatest \<open>e\<close> with
  \<open>2 ^ e \<le> a\<close>, and \<open>-1022\<close> for the numbers below \<open>2 ^ -1022\<close> (the subnormal range).
\<close>

function ilog2 :: "int \<Rightarrow> int" where
  "ilog2 n = (if n < 2 then 0 else ilog2 (n div 2) + 1)"
  by pat_completeness auto
termination
  by (relation "measure nat") auto

declare ilog2.simps [simp del]

fun below_one :: "nat \<Rightarrow> real \<Rightarrow> int" where
  "below_one k a = (if k = 0 \<or> 1 \<le> a then 0 else below_one (k - 1) (2 * a) - 1)"

declare below_one.simps [simp del]

definition expo :: "real \<Rightarrow> int" where
  "expo a = (if 1 \<le> a then ilog2 \<lfloor>a\<rfloor> else below_one 1022 a)"

definition pow2 :: "int \<Rightarrow> real" where
  "pow2 k = (if 0 \<le> k then 2 ^ nat k else 1 / 2 ^ nat (- k))"

text \<open>
  \<open>fl x\<close> is the double nearest to \<open>x\<close>, a tie going to the even significand: \<open>x\<close> is
  rounded to a multiple of \<open>2 ^ (expo \<bar>x\<bar> - 52)\<close>, which leaves 53 significant bits.
\<close>

definition fl :: "real \<Rightarrow> real" where
  "fl x =
     (if x = 0 then 0
      else (let q = pow2 (expo \<bar>x\<bar> - 52) in of_int (rne (x / q)) * q))"

text \<open>\<open>x\<close> is a double: rounding leaves it as it is, and it is in range.\<close>

definition dbl :: "real \<Rightarrow> bool" where
  "dbl x \<longleftrightarrow> fl x = x \<and> \<bar>x\<bar> < 2 ^ 1024"

text \<open>
  The result of one floating-point operation whose exact value is \<open>x\<close>. A result past the
  largest double is infinite. In the two expressions of \<^verbatim>\<open>pitch\<close> an infinite value
  stays infinite through the operations that follow, and \<^verbatim>\<open>int\<close> raises
  \<^verbatim>\<open>OverflowError\<close> on it at the end, with no other error possible in between; the
  model raises it at once. The conversion of an integer to a float raises the same error
  itself.
\<close>

definition fin :: "real \<Rightarrow> error + real" where
  "fin x = (let y = fl x in if 2 ^ 1024 \<le> \<bar>y\<bar> then Inl OverflowError else Inr y)"

text \<open>\<^verbatim>\<open>x / y\<close> on floats.\<close>

definition fdiv :: "real \<Rightarrow> real \<Rightarrow> error + real" where
  "fdiv x y = (if y = 0 then Inl ZeroDivisionError else fin (x / y))"

text \<open>Evaluation in sequence: the first error ends it.\<close>

definition bnd :: "error + 'a \<Rightarrow> ('a \<Rightarrow> error + 'b) \<Rightarrow> error + 'b" where
  "bnd r f = (case r of Inl e \<Rightarrow> Inl e | Inr x \<Rightarrow> f x)"

text \<open>A \<^verbatim>\<open>for\<close> loop that appends one result per item and stops at the first error.\<close>

fun for_each :: "('a \<Rightarrow> error + 'b) \<Rightarrow> 'a list \<Rightarrow> error + 'b list" where
  "for_each f [] = Inr []"
| "for_each f (x # xs) =
     (case f x of
        Inl e \<Rightarrow> Inl e
      | Inr y \<Rightarrow> (case for_each f xs of Inl e \<Rightarrow> Inl e | Inr ys \<Rightarrow> Inr (y # ys)))"

subsection \<open>loadFile\<close>

text \<open>First loop: the lines whose first character is \<^verbatim>\<open>#\<close>, as they are.\<close>

fun load_meta :: "string list \<Rightarrow> error + string list" where
  "load_meta [] = Inr []"
| "load_meta (line # rest) =
     (case line of
        [] \<Rightarrow> Inl IndexError
      | c # _ \<Rightarrow>
          (case load_meta rest of
             Inl e \<Rightarrow> Inl e
           | Inr metaData \<Rightarrow> Inr (if c = CHR ''#'' then line # metaData else metaData)))"

text \<open>
  Body of the second loop for one line that is not a header line: split on spaces; with
  six pieces the last one is popped and, with a space in front, stored at index 4; with
  more than six the program exits.
\<close>

definition parse_line :: "string \<Rightarrow> error + string list" where
  "parse_line line =
     (let sp = split_sp line
      in if length sp = 6 then Inr ((butlast sp)[4 := CHR '' '' # last sp])
         else if 6 < length sp then Inl (InvalidFormat line)
         else Inr sp)"

fun load_lyrics :: "string list \<Rightarrow> error + string list list" where
  "load_lyrics [] = Inr []"
| "load_lyrics (line # rest) =
     (case line of
        [] \<Rightarrow> Inl IndexError
      | c # _ \<Rightarrow>
          (if c = CHR ''#'' then load_lyrics rest
           else (case parse_line line of
                   Inl e \<Rightarrow> Inl e
                 | Inr sp \<Rightarrow>
                     (case load_lyrics rest of
                        Inl e \<Rightarrow> Inl e
                      | Inr lyrics \<Rightarrow> Inr (sp # lyrics)))))"

definition loadFile :: "string list opened \<Rightarrow> error + (string list \<times> string list list)" where
  "loadFile src =
     (case src of
        Missing \<Rightarrow> Inl ChartNotFound
      | Unreadable \<Rightarrow> Inl ChartReadError
      | Contents lines \<Rightarrow>
          (case load_meta lines of
             Inl e \<Rightarrow> Inl e
           | Inr metaData \<Rightarrow>
               (case load_lyrics lines of
                  Inl e \<Rightarrow> Inl e
                | Inr lyrics \<Rightarrow> Inr (metaData, lyrics))))"

subsection \<open>loadAudio, prepareAudio, analyze\<close>

text \<open>
  Decoding, resampling and the pitch model are external. The audio file is given with
  the two sequences the model returns for it.
\<close>

record modelOutput =
  mo_pitch :: "real list"
  mo_uncertainty :: "real list"

definition loadAudio :: "modelOutput opened \<Rightarrow> error + modelOutput" where
  "loadAudio src =
     (case src of
        Missing \<Rightarrow> Inl AudioNotFound
      | Unreadable \<Rightarrow> Inl AudioReadError
      | Contents out \<Rightarrow> Inr out)"

subsection \<open>pitch2hz and hz2note\<close>

definition PT_OFFSET :: real where "PT_OFFSET = 25.58"
definition PT_SLOPE :: real where "PT_SLOPE = 63.07"
definition FMIN :: real where "FMIN = 10.0"
definition BINS_PER_OCTAVE :: real where "BINS_PER_OCTAVE = 12.0"

definition pitch2hz :: "real \<Rightarrow> real" where
  "pitch2hz p =
     (let cqt_bin = p * PT_SLOPE + PT_OFFSET
      in FMIN * 2 powr (1 * cqt_bin / BINS_PER_OCTAVE))"

text \<open>
  \<^verbatim>\<open>np.log\<close> of zero is minus infinity and of a negative number is not a number;
  \<^verbatim>\<open>int\<close> raises on both.
\<close>

definition hz2note :: "real \<Rightarrow> error + int" where
  "hz2note hz =
     (if hz = 0 then Inl OverflowError
      else if hz < 0 then Inl ValueError
      else Inr (np_round (12 * ln (4 * hz / 55 * 2 powr (3 / 4)) / ln 2) - 60))"

subsection \<open>pitch\<close>

text \<open>One of the two tests of the loop over the header lines.\<close>

definition read_tag ::
  "(string \<Rightarrow> real option) \<Rightarrow> string \<Rightarrow> string \<Rightarrow> real option \<Rightarrow> error + real option" where
  "read_tag pfloat tag line cur =
     (if take 4 line = tag
      then (case pfloat (drop 5 line) of None \<Rightarrow> Inl ValueError | Some v \<Rightarrow> Inr (Some v))
      else Inr cur)"

fun scan_tags ::
  "(string \<Rightarrow> real option) \<Rightarrow> string list \<Rightarrow> real option \<Rightarrow> real option
     \<Rightarrow> error + (real option \<times> real option)" where
  "scan_tags pfloat [] bpm gap = Inr (bpm, gap)"
| "scan_tags pfloat (line # rest) bpm gap =
     (case read_tag pfloat ''#BPM'' line bpm of
        Inl e \<Rightarrow> Inl e
      | Inr bpm' \<Rightarrow>
          (case read_tag pfloat ''#GAP'' line gap of
             Inl e \<Rightarrow> Inl e
           | Inr gap' \<Rightarrow> scan_tags pfloat rest bpm' gap'))"

text \<open>
  \<^verbatim>\<open>tps = int(bpm)*4/60\<close>, where \<^verbatim>\<open>int(None)\<close> raises. The division of two
  integers gives the double nearest to the quotient; the integer part of a double times
  4 / 60 is never past the largest double.
\<close>

definition ticks_per_second :: "real option \<Rightarrow> error + real" where
  "ticks_per_second bpm =
     (case bpm of
        None \<Rightarrow> Inl TypeError
      | Some b \<Rightarrow> Inr (fl (of_int (py_int b) * 4 / 60)))"

text \<open>
  The argument of \<^verbatim>\<open>int\<close> in
  \<^verbatim>\<open>start = int(((gap/1000) + int(line[1])/tps - 0.5/tps) * 1000/32)\<close>, operation by
  operation in the order Python evaluates them, for the tick \<open>t\<close> read from \<^verbatim>\<open>line[1]\<close>;
  then the same for \<^verbatim>\<open>end\<close>, with the length \<open>d\<close> read from \<^verbatim>\<open>line[2]\<close>.
\<close>

definition start_pos :: "real \<Rightarrow> real \<Rightarrow> int \<Rightarrow> error + real" where
  "start_pos gap tps t =
     bnd (fdiv gap 1000) (\<lambda>a.
     bnd (fin (of_int t)) (\<lambda>tf.
     bnd (fdiv tf tps) (\<lambda>b.
     bnd (fin (a + b)) (\<lambda>c.
     bnd (fdiv 0.5 tps) (\<lambda>h.
     bnd (fin (c - h)) (\<lambda>e.
     bnd (fin (e * 1000)) (\<lambda>f.
     fdiv f 32)))))))"

definition end_pos :: "real \<Rightarrow> real \<Rightarrow> int \<Rightarrow> int \<Rightarrow> error + real" where
  "end_pos gap tps t d =
     bnd (fdiv gap 1000) (\<lambda>a.
     bnd (fin (of_int (t + d))) (\<lambda>tf.
     bnd (fdiv tf tps) (\<lambda>b.
     bnd (fin (a + b)) (\<lambda>c.
     bnd (fdiv 0.5 tps) (\<lambda>h.
     bnd (fin (c + h)) (\<lambda>e.
     bnd (fin (e * 1000)) (\<lambda>f.
     fdiv f 32)))))))"

text \<open>The two frame indices of a note.\<close>

definition start_frame :: "real \<Rightarrow> real \<Rightarrow> int \<Rightarrow> error + int" where
  "start_frame gap tps t = bnd (start_pos gap tps t) (\<lambda>v. Inr (py_int v))"

definition end_frame :: "real \<Rightarrow> real \<Rightarrow> int \<Rightarrow> int \<Rightarrow> error + int" where
  "end_frame gap tps t d = bnd (end_pos gap tps t d) (\<lambda>v. Inr (py_int v))"

text \<open>
  The note number of a frame range: the frames of the slice whose confidence reaches the
  threshold, then 0 when there is none and the note of their median pitch otherwise.
\<close>

definition note_of_frames :: "real \<Rightarrow> real list \<Rightarrow> real list \<Rightarrow> int \<Rightarrow> int \<Rightarrow> error + int" where
  "note_of_frames thr pitch_arr confidence start stop =
     (case mask_select (py_slice pitch_arr start stop)
             (map (\<lambda>c. thr \<le> c) (py_slice confidence start stop)) of
        Inl e \<Rightarrow> Inl e
      | Inr pitches \<Rightarrow>
          if length pitches = 0 then Inr 0
          else hz2note (pitch2hz (median pitches)))"

text \<open>Body of the loop over the parsed lines.\<close>

definition pitch_line ::
  "(string \<Rightarrow> int option) \<Rightarrow> real \<Rightarrow> real \<Rightarrow> real \<Rightarrow> real list \<Rightarrow> real list
     \<Rightarrow> string list \<Rightarrow> error + string list" where
  "pitch_line pint thr gap tps pitch_arr confidence line =
     (case line of
        [] \<Rightarrow> Inl IndexError
      | l0 # _ \<Rightarrow>
          if startswith l0 ''-''
          then (if length line < 2 then Inl IndexError else Inr [l0, line ! 1])
          else if startswith l0 ''E'' then Inr [l0]
          else if length line < 5 then Inl (InvalidLine line)
          else (case pint (line ! 1) of
                  None \<Rightarrow> Inl ValueError
                | Some t \<Rightarrow>
                    (case start_frame gap tps t of
                       Inl e \<Rightarrow> Inl e
                     | Inr start \<Rightarrow>
                         (case pint (line ! 2) of
                            None \<Rightarrow> Inl ValueError
                          | Some d \<Rightarrow>
                              (case end_frame gap tps t d of
                                 Inl e \<Rightarrow> Inl e
                               | Inr stop \<Rightarrow>
                                   (case note_of_frames thr pitch_arr confidence start stop of
                                      Inl e \<Rightarrow> Inl e
                                    | Inr note \<Rightarrow>
                                        Inr [l0, line ! 1, line ! 2, str_int note,
                                             line ! 4]))))))"

definition pitch ::
  "(string \<Rightarrow> real option) \<Rightarrow> (string \<Rightarrow> int option) \<Rightarrow> real \<Rightarrow> string list
     \<Rightarrow> string list list \<Rightarrow> modelOutput \<Rightarrow> error + string list list" where
  "pitch pfloat pint thr metaData lyrics out =
     (case scan_tags pfloat metaData None None of
        Inl e \<Rightarrow> Inl e
      | Inr (bpm, gap) \<Rightarrow>
          (case ticks_per_second bpm of
             Inl e \<Rightarrow> Inl e
           | Inr tps \<Rightarrow>
               if bpm = None then Inl NoBpmTag
               else (case gap of
                       None \<Rightarrow> Inl NoGapTag
                     | Some g \<Rightarrow>
                         for_each
                           (pitch_line pint thr g tps (mo_pitch out)
                              (map (\<lambda>u. 1 - u) (mo_uncertainty out)))
                           lyrics)))"

subsection \<open>writeFile\<close>

definition write_line :: "string list \<Rightarrow> error + string" where
  "write_line line =
     (case line of
        [] \<Rightarrow> Inl IndexError
      | l0 # _ \<Rightarrow>
          if startswith l0 ''-''
          then (if length line < 2 then Inl IndexError else Inr (l0 @ '' '' @ line ! 1))
          else if startswith l0 ''E'' then Inr l0
          else if length line < 5 then Inl (InvalidLine line)
          else Inr (l0 @ '' '' @ line ! 1 @ '' '' @ line ! 2 @ '' '' @ line ! 3
                      @ '' '' @ line ! 4))"

text \<open>
  The destination is created empty first. The result is the sequence of strings written
  to it (its text is their concatenation) and the error, if any.
\<close>

definition writeFile :: "string list \<Rightarrow> string list list \<Rightarrow> string list \<times> error option" where
  "writeFile metaData lyricsPitched =
     (case for_each write_line lyricsPitched of
        Inl e \<Rightarrow> ([], Some e)
      | Inr lyricsString \<Rightarrow> (metaData @ lyricsString, None))"

subsection \<open>The script\<close>

datatype stage = Reading | LoadingAudio | PreparingAudio | Analyzing | Pitching | Writing

text \<open>
  A run: the stages entered, in order; the destination file (\<open>None\<close> while it has not
  been created); the error that ended the run (\<open>None\<close> when it completed).
\<close>

record run =
  stages :: "stage list"
  outfile :: "string list option"
  outcome :: "error option"

definition main ::
  "(string \<Rightarrow> real option) \<Rightarrow> (string \<Rightarrow> int option) \<Rightarrow> real \<Rightarrow> string list opened
     \<Rightarrow> modelOutput opened \<Rightarrow> run" where
  "main pfloat pint thr chart audio =
     (case loadFile chart of
        Inl e \<Rightarrow> \<lparr>stages = [Reading], outfile = None, outcome = Some e\<rparr>
      | Inr (metaData, lyrics) \<Rightarrow>
          (case loadAudio audio of
             Inl e \<Rightarrow>
               \<lparr>stages = [Reading, LoadingAudio], outfile = None, outcome = Some e\<rparr>
           | Inr out \<Rightarrow>
               (case pitch pfloat pint thr metaData lyrics out of
                  Inl e \<Rightarrow>
                    \<lparr>stages = [Reading, LoadingAudio, PreparingAudio, Analyzing, Pitching],
                     outfile = None, outcome = Some e\<rparr>
                | Inr lyricsPitched \<Rightarrow>
                    (case writeFile metaData lyricsPitched of
                       (written, res) \<Rightarrow>
                         \<lparr>stages = [Reading, LoadingAudio, PreparingAudio, Analyzing,
                                    Pitching, Writing],
                          outfile = Some written, outcome = res\<rparr>))))"

section \<open>Properties\<close>

subsection \<open>The pitch-to-note conversion is monotone\<close>

lemma pitch2hz_pos: "0 < pitch2hz p"
  by (simp add: pitch2hz_def FMIN_def)

lemma pitch2hz_mono: "p \<le> q \<Longrightarrow> pitch2hz p \<le> pitch2hz q"
  by (simp add: pitch2hz_def FMIN_def PT_SLOPE_def BINS_PER_OCTAVE_def)

lemma np_round_mono: "x \<le> y \<Longrightarrow> np_round x \<le> np_round y"
proof -
  assume xy: "x \<le> y"
  have fl: "\<lfloor>x\<rfloor> \<le> \<lfloor>y\<rfloor>" using xy by (rule floor_mono)
  show ?thesis
  proof (cases "\<lfloor>x\<rfloor> = \<lfloor>y\<rfloor>")
    case True
    then show ?thesis using xy by (auto simp: np_round_def rne_def Let_def)
  next
    case False
    then have "\<lfloor>x\<rfloor> + 1 \<le> \<lfloor>y\<rfloor>" using fl by simp
    moreover have "np_round x \<le> \<lfloor>x\<rfloor> + 1" by (simp add: np_round_def rne_def Let_def)
    moreover have "\<lfloor>y\<rfloor> \<le> np_round y" by (simp add: np_round_def rne_def Let_def)
    ultimately show ?thesis by linarith
  qed
qed

lemma semitones_mono:
  assumes "0 < h" "h \<le> k"
  shows "12 * ln (4 * h / 55 * 2 powr (3 / 4)) / ln 2
       \<le> 12 * ln (4 * k / 55 * 2 powr (3 / 4)) / ln (2::real)"
proof -
  have pos: "0 < 4 * h / 55 * 2 powr (3 / 4)" using assms by simp
  have le: "4 * h / 55 * 2 powr (3 / 4) \<le> 4 * k / 55 * 2 powr (3 / 4)"
    using assms by (simp add: mult_right_mono divide_right_mono)
  have "ln (4 * h / 55 * 2 powr (3 / 4)) \<le> ln (4 * k / 55 * 2 powr (3 / 4))"
    using pos le by (simp only: ln_le_cancel_iff)
  moreover have "0 < ln (2::real)" by simp
  ultimately show ?thesis by (simp add: divide_right_mono)
qed

text \<open>
  C8. For \<open>p1 < p2\<close> in \<open>[0,1]\<close> both conversions \<open>hz2note (pitch2hz p)\<close> return a note
  number, and the note of \<open>p1\<close> is at most the note of \<open>p2\<close>. (Floats are read as reals.)
\<close>

theorem note_of_pitch_mono:
  assumes "0 \<le> p1" "p1 < p2" "p2 \<le> 1"
  shows "\<exists>n1 n2. hz2note (pitch2hz p1) = Inr n1 \<and> hz2note (pitch2hz p2) = Inr n2 \<and> n1 \<le> n2"
proof -
  have h1: "0 < pitch2hz p1" and h2: "0 < pitch2hz p2" by (rule pitch2hz_pos)+
  have le: "pitch2hz p1 \<le> pitch2hz p2" using assms by (intro pitch2hz_mono) simp
  have "np_round (12 * ln (4 * pitch2hz p1 / 55 * 2 powr (3 / 4)) / ln 2) - 60
      \<le> np_round (12 * ln (4 * pitch2hz p2 / 55 * 2 powr (3 / 4)) / ln 2) - 60"
    using np_round_mono[OF semitones_mono[OF h1 le]] by simp
  then show ?thesis using h1 h2 by (simp add: hz2note_def)
qed

theorem note_of_pitch_mono_witness:
  "(0::real) \<le> 0 \<and> (0::real) < 1 \<and> (1::real) \<le> 1 \<and>
   (\<exists>n1 n2. hz2note (pitch2hz 0) = Inr n1 \<and> hz2note (pitch2hz 1) = Inr n2 \<and> n1 \<le> n2)"
  using note_of_pitch_mono[of 0 1] by simp

subsection \<open>Slices and the frames of a note\<close>

lemma slice_index_le: "slice_index n i \<le> n"
  by (auto simp: slice_index_def max_def)

lemma take_drop_nth: "hi \<le> length xs \<Longrightarrow> take (hi - lo) (drop lo xs) = map ((!) xs) [lo..<hi]"
  by (rule nth_equalityI) simp_all

lemma py_slice_nth:
  "py_slice xs start stop =
     map ((!) xs) [slice_index (length xs) start..<slice_index (length xs) stop]"
  by (simp add: py_slice_def Let_def take_drop_nth slice_index_le)

lemma mask_filter: "map fst (filter snd (zip (map f js) (map g js))) = map f (filter g js)"
  by (induction js) auto

lemma select_frames:
  assumes "length cs = length ps"
  shows "mask_select (py_slice ps start stop) (map P (py_slice cs start stop))
       = Inr (map ((!) ps) (filter (\<lambda>i. P (cs ! i))
               [slice_index (length ps) start..<slice_index (length ps) stop]))"
proof -
  let ?js = "[slice_index (length ps) start..<slice_index (length ps) stop]"
  have "map P (py_slice cs start stop) = map (\<lambda>i. P (cs ! i)) ?js"
    using assms by (simp add: py_slice_nth)
  then show ?thesis
    by (simp add: mask_select_def py_slice_nth mask_filter)
qed

lemma note_of_frames_eq:
  assumes "length unc = length pitch_arr"
  shows "note_of_frames thr pitch_arr (map (\<lambda>u. 1 - u) unc) start stop =
     (let sel = filter (\<lambda>i. thr \<le> 1 - unc ! i)
                  [slice_index (length pitch_arr) start..<slice_index (length pitch_arr) stop]
      in if sel = [] then Inr 0 else hz2note (pitch2hz (median (map ((!) pitch_arr) sel))))"
proof -
  let ?js = "[slice_index (length pitch_arr) start..<slice_index (length pitch_arr) stop]"
  have "filter (\<lambda>i. thr \<le> map (\<lambda>u. 1 - u) unc ! i) ?js = filter (\<lambda>i. thr \<le> 1 - unc ! i) ?js"
    using assms slice_index_le[of "length pitch_arr" stop] by (intro filter_cong) auto
  then show ?thesis using assms
    by (simp add: note_of_frames_def select_frames[where P = "\<lambda>c. thr \<le> c"] Let_def)
qed

lemma slice_index_nonneg: "0 \<le> i \<Longrightarrow> slice_index n i = min (nat i) n"
  by (simp add: slice_index_def)

text \<open>
  For two series of one length and a frame range whose bounds are not negative, the
  frames selected are exactly the indices of the range, clamped to the series, whose
  confidence \<open>1 - unc ! i\<close> reaches the threshold; the note is 0 when none is selected
  and the note \<open>hz2note (pitch2hz m)\<close> of the median \<open>m\<close> of their pitches otherwise.
\<close>

theorem frames_in_range_decide_note:
  fixes pitch_arr unc :: "real list"
  assumes len: "length unc = length pitch_arr" and nonneg: "0 \<le> start" "0 \<le> stop"
  shows "\<exists>note.
      note_of_frames thr pitch_arr (map (\<lambda>u. 1 - u) unc) start stop = Inr note \<and>
      (let sel = filter (\<lambda>i. thr \<le> 1 - unc ! i)
                   [min (nat start) (length pitch_arr)..<min (nat stop) (length pitch_arr)]
       in if sel = [] then note = 0
          else hz2note (pitch2hz (median (map ((!) pitch_arr) sel))) = Inr note)"
proof -
  let ?sel = "filter (\<lambda>i. thr \<le> 1 - unc ! i)
                [min (nat start) (length pitch_arr)..<min (nat stop) (length pitch_arr)]"
  obtain k where k: "hz2note (pitch2hz (median (map ((!) pitch_arr) ?sel))) = Inr k"
    using pitch2hz_pos[of "median (map ((!) pitch_arr) ?sel)"] by (simp add: hz2note_def)
  have "note_of_frames thr pitch_arr (map (\<lambda>u. 1 - u) unc) start stop
          = Inr (if ?sel = [] then 0 else k)"
    using k nonneg by (simp add: note_of_frames_eq[OF len] slice_index_nonneg Let_def)
  moreover have "let sel = ?sel in if sel = [] then (if ?sel = [] then 0 else k) = 0
          else hz2note (pitch2hz (median (map ((!) pitch_arr) sel))) = Inr (if ?sel = [] then 0 else k)"
    using k by (simp add: Let_def)
  ultimately show ?thesis by blast
qed

theorem frames_in_range_decide_note_witness:
  "\<exists>note.
      note_of_frames 0.85 [0.5, 0.6, 0.7, 0.9] (map (\<lambda>u. 1 - u) [0.1, 0.5, 0.05, 0.9]) 0 18
        = Inr note \<and>
      hz2note (pitch2hz 0.6) = Inr note"
  using frames_in_range_decide_note[where unc = "[0.1, 0.5, 0.05, 0.9]"
      and pitch_arr = "[0.5, 0.6, 0.7, 0.9]" and thr = "0.85" and start = 0 and stop = 18]
  by (simp add: median_def)

subsection \<open>Evaluating the double-precision arithmetic\<close>

lemmas float_eval = start_frame_def end_frame_def start_pos_def end_pos_def bnd_def fdiv_def
  fin_def fl_def expo_def pow2_def rne_def py_int_def ilog2.simps below_one.simps Let_def

lemma py_int_cases: "py_int x = (if 0 \<le> x then \<lfloor>x\<rfloor> else \<lceil>x\<rceil>)"
  by (simp add: py_int_def ceiling_def)

lemma fin_dbl: "dbl x \<Longrightarrow> fin x = Inr x"
  by (simp add: dbl_def fin_def)


subsection \<open>A note that starts before the first frame\<close>

text \<open>
  C1. A chart with BPM 120 and GAP 0 gives 8 ticks per second; its note at tick 0 of
  length 4 gets the frame indices \<open>-1\<close> and \<open>17\<close>. The slice \<^verbatim>\<open>[-1:17]\<close> counts
  \<open>-1\<close> from the end of the series: of 10 frames it selects the last one only, of 20
  frames none, where the range clamped to the series holds frames \<open>0..9\<close> and \<open>0..16\<close>.
  With 20 frames of pitch 0.5 and uncertainty 0 the note line is written with note 0.
\<close>

theorem negative_start_frame_wraps:
  "start_frame 0 8 0 = Inr (- 1) \<and> end_frame 0 8 0 4 = Inr 17 \<and>
   py_slice [0.50, 0.51, 0.52, 0.53, 0.54, 0.55, 0.56, 0.57, 0.58, 0.59 :: real] (- 1) 17
     = [0.59] \<and>
   py_slice [0.50, 0.51, 0.52, 0.53, 0.54, 0.55, 0.56, 0.57, 0.58, 0.59 :: real] 0 17
     = [0.50, 0.51, 0.52, 0.53, 0.54, 0.55, 0.56, 0.57, 0.58, 0.59] \<and>
   py_slice (replicate 20 (0.5 :: real)) (- 1) 17 = [] \<and>
   py_slice (replicate 20 (0.5 :: real)) 0 17 = replicate 17 0.5 \<and>
   pitch_line (\<lambda>s. if s = ''0'' then Some 0 else if s = ''4'' then Some 4 else None)
       0.85 0 8 (replicate 20 0.5) (map (\<lambda>u. 1 - u) (replicate 20 0))
       ['':'', ''0'', ''4'', ''7'', ''la\<newline>'']
     = Inr ['':'', ''0'', ''4'', ''0'', ''la\<newline>'']"
  by (simp add: pitch_line_def startswith_def float_eval
      note_of_frames_def py_slice_def slice_index_def mask_select_def str_int_def
      split del: if_split)

subsection \<open>Confident frames that are not selected\<close>

lemma semitones_of_pitch:
  "12 * ln (4 * pitch2hz p / 55 * 2 powr (3 / 4)) / ln 2
     = p * PT_SLOPE + PT_OFFSET + 9 - 12 * (ln (11 / 8) / ln (2::real))"
proof -
  let ?c = "p * PT_SLOPE + PT_OFFSET"
  have eq: "4 * pitch2hz p / 55 * 2 powr (3 / 4) = (8 / 11) * 2 powr (?c / 12 + 3 / 4)"
    by (simp add: pitch2hz_def FMIN_def BINS_PER_OCTAVE_def powr_add)
  have "ln ((8 / 11) * 2 powr (?c / 12 + 3 / 4)) = ln (8 / 11 :: real) + ln (2 powr (?c / 12 + 3 / 4))"
    by (rule ln_mult_pos) simp_all
  then have "ln (4 * pitch2hz p / 55 * 2 powr (3 / 4))
      = ln (8 / 11 :: real) + (?c / 12 + 3 / 4) * ln 2"
    unfolding eq by simp
  moreover have "ln (8 / 11 :: real) = - ln (11 / 8)"
    by (simp add: ln_div)
  moreover have "ln (2::real) \<noteq> 0" by simp
  ultimately show ?thesis by (simp add: field_simps)
qed

lemma ln_11_8_bounds: "0 < ln (11 / 8 :: real)" "2 * ln (11 / 8 :: real) < ln 2"
proof -
  show "0 < ln (11 / 8 :: real)" by simp
  have "ln ((11 / 8 :: real) ^ 2) < ln 2"
    by (subst ln_less_cancel_iff) (simp_all add: power2_eq_square)
  then show "2 * ln (11 / 8 :: real) < ln 2"
    by (simp add: ln_realpow)
qed

lemma rne_ge_floor: "\<lfloor>x\<rfloor> \<le> rne x"
  by (simp add: rne_def Let_def)

lemma note_of_full_pitch: "\<exists>n. hz2note (pitch2hz 1) = Inr n \<and> 31 \<le> n"
proof -
  define L :: real where "L = ln (11 / 8) / ln 2"
  have l2: "0 < ln (2::real)" by simp
  have "L < 1 / 2" using ln_11_8_bounds(2) l2 by (simp add: L_def field_simps)
  then have "91 \<le> 1 * PT_SLOPE + PT_OFFSET + 9 - 12 * L"
    by (simp add: PT_SLOPE_def PT_OFFSET_def)
  then have "91 \<le> 12 * ln (4 * pitch2hz 1 / 55 * 2 powr (3 / 4)) / ln 2"
    by (simp only: semitones_of_pitch L_def)
  then have "91 \<le> \<lfloor>12 * ln (4 * pitch2hz 1 / 55 * 2 powr (3 / 4)) / ln 2\<rfloor>"
    by (simp add: le_floor_iff)
  then have "91 \<le> np_round (12 * ln (4 * pitch2hz 1 / 55 * 2 powr (3 / 4)) / ln 2)"
    unfolding np_round_def
    using rne_ge_floor[of "12 * ln (4 * pitch2hz 1 / 55 * 2 powr (3 / 4)) / ln 2"]
    by linarith
  then show ?thesis using pitch2hz_pos[of 1] by (simp add: hz2note_def)
qed

text \<open>
  C6. A chart with BPM 120 and GAP 10 gives its note at tick 0 of length 4 the frame
  indices \<open>-1\<close> and \<open>17\<close>. Of a series of 30 frames, all of pitch 1 and uncertainty 0.1,
  the 17 frames \<open>0..16\<close> of the range all have a confidence of at least 0.85, and the note
  of their median pitch 1 is at least 31; the slice \<^verbatim>\<open>[-1:17]\<close> selects no frame, and
  the line is written with note 0.
\<close>

theorem confident_frames_not_selected:
  "start_frame 10 8 0 = Inr (- 1) \<and> end_frame 10 8 0 4 = Inr 17 \<and>
   filter (\<lambda>i. (0.85::real) \<le> 1 - replicate 30 0.1 ! i) [0..<17] = [0..<17] \<and>
   median (map ((!) (replicate 30 1)) [0..<17]) = 1 \<and>
   (\<exists>n. hz2note (pitch2hz 1) = Inr n \<and> 31 \<le> n) \<and>
   note_of_frames 0.85 (replicate 30 1) (map (\<lambda>u. 1 - u) (replicate 30 0.1)) (- 1) 17 = Inr 0 \<and>
   pitch_line (\<lambda>s. if s = ''0'' then Some 0 else if s = ''4'' then Some 4 else None)
       0.85 10 8 (replicate 30 1) (map (\<lambda>u. 1 - u) (replicate 30 0.1))
       ['':'', ''0'', ''4'', ''7'', ''la\<newline>'']
     = Inr ['':'', ''0'', ''4'', ''0'', ''la\<newline>'']"
proof -
  have frames: "start_frame 10 8 0 = Inr (- 1) \<and> end_frame 10 8 0 4 = Inr 17"
    by (simp add: float_eval split del: if_split)
  have conf: "filter (\<lambda>i. (0.85::real) \<le> 1 - replicate 30 0.1 ! i) [0..<17] = [0..<17]"
    by (rule filter_True) simp
  have "map ((!) (replicate 30 (1::real))) [0..<17] = replicate 17 1"
    by (rule nth_equalityI) simp_all
  then have med: "median (map ((!) (replicate 30 1)) [0..<17]) = 1"
    by (simp add: median_def sort_replicate)
  have sel: "note_of_frames 0.85 (replicate 30 1) (map (\<lambda>u. 1 - u) (replicate 30 0.1)) (- 1) 17
      = Inr 0"
    by (simp add: note_of_frames_def py_slice_def slice_index_def mask_select_def)
  have line: "pitch_line (\<lambda>s. if s = ''0'' then Some 0 else if s = ''4'' then Some 4 else None)
       0.85 10 8 (replicate 30 1) (map (\<lambda>u. 1 - u) (replicate 30 0.1))
       ['':'', ''0'', ''4'', ''7'', ''la\<newline>'']
     = Inr ['':'', ''0'', ''4'', ''0'', ''la\<newline>'']"
    using frames sel by (simp add: pitch_line_def startswith_def str_int_def)
  show ?thesis using frames conf med note_of_full_pitch sel line by blast
qed

subsection \<open>Ticks, seconds and frames\<close>

text \<open>
  C2 (amended). The two frame indices are the truncations toward zero, not the floors, of
  the values of \<open>startSec * 1000 / 32\<close> and \<open>endSec * 1000 / 32\<close> as double-precision
  arithmetic gives them, one rounding per operation: the floor of a value that is not
  negative and the ceiling of a negative one. When no operation rounds, the values are
  \<open>startSec * 1000 / 32\<close> and \<open>endSec * 1000 / 32\<close> themselves. With 0 ticks per second the
  conversion raises \<^verbatim>\<open>ZeroDivisionError\<close>. The frame length is the constant 32 ms.
  For BPM 120 (8 ticks per second), GAP 0, start tick 0 and length 4 the indices are
  \<open>-1\<close> and \<open>17\<close>; for GAP 285 at 4 ticks per second the start index of tick 0 is 4,
  where the exact value of \<open>startSec * 1000 / 32\<close> is 5.
\<close>

theorem frames_truncate_toward_zero:
  fixes gap tps :: real and t d :: int
  defines "startSec \<equiv> gap / 1000 + of_int t / tps - 0.5 / tps"
    and "endSec \<equiv> gap / 1000 + of_int (t + d) / tps + 0.5 / tps"
  shows "start_frame gap tps t
           = (case start_pos gap tps t of
                Inl e \<Rightarrow> Inl e
              | Inr v \<Rightarrow> Inr (if 0 \<le> v then \<lfloor>v\<rfloor> else \<lceil>v\<rceil>)) \<and>
         end_frame gap tps t d
           = (case end_pos gap tps t d of
                Inl e \<Rightarrow> Inl e
              | Inr v \<Rightarrow> Inr (if 0 \<le> v then \<lfloor>v\<rfloor> else \<lceil>v\<rceil>)) \<and>
         (tps \<noteq> 0 \<and> dbl (gap / 1000) \<and> dbl (of_int t) \<and> dbl (of_int t / tps) \<and>
          dbl (gap / 1000 + of_int t / tps) \<and> dbl (0.5 / tps) \<and> dbl startSec \<and>
          dbl (startSec * 1000) \<and> dbl (startSec * 1000 / 32) \<longrightarrow>
            start_pos gap tps t = Inr (startSec * 1000 / 32)) \<and>
         (tps \<noteq> 0 \<and> dbl (gap / 1000) \<and> dbl (of_int (t + d)) \<and> dbl (of_int (t + d) / tps) \<and>
          dbl (gap / 1000 + of_int (t + d) / tps) \<and> dbl (0.5 / tps) \<and> dbl endSec \<and>
          dbl (endSec * 1000) \<and> dbl (endSec * 1000 / 32) \<longrightarrow>
            end_pos gap tps t d = Inr (endSec * 1000 / 32)) \<and>
         (tps = 0 \<and> \<bar>fl (gap / 1000)\<bar> < 2 ^ 1024 \<and> \<bar>fl (of_int t)\<bar> < 2 ^ 1024 \<longrightarrow>
            start_frame gap tps t = Inl ZeroDivisionError) \<and>
         ticks_per_second (Some 120) = Inr 8 \<and>
         start_frame 0 8 0 = Inr (- 1) \<and> end_frame 0 8 0 4 = Inr 17 \<and>
         start_frame 285 4 0 = Inr 4"
proof -
  have 1: "start_frame gap tps t
           = (case start_pos gap tps t of
                Inl e \<Rightarrow> Inl e
              | Inr v \<Rightarrow> Inr (if 0 \<le> v then \<lfloor>v\<rfloor> else \<lceil>v\<rceil>))"
    by (simp add: start_frame_def bnd_def py_int_cases split: sum.splits)
  have 2: "end_frame gap tps t d
           = (case end_pos gap tps t d of
                Inl e \<Rightarrow> Inl e
              | Inr v \<Rightarrow> Inr (if 0 \<le> v then \<lfloor>v\<rfloor> else \<lceil>v\<rceil>))"
    by (simp add: end_frame_def bnd_def py_int_cases split: sum.splits)
  have 3: "start_pos gap tps t = Inr (startSec * 1000 / 32)"
    if "tps \<noteq> 0" "dbl (gap / 1000)" "dbl (of_int t)" "dbl (of_int t / tps)"
      "dbl (gap / 1000 + of_int t / tps)" "dbl (0.5 / tps)" "dbl startSec"
      "dbl (startSec * 1000)" "dbl (startSec * 1000 / 32)"
    using that unfolding startSec_def start_pos_def
    by (simp add: bnd_def fdiv_def fin_dbl)
  have 4: "end_pos gap tps t d = Inr (endSec * 1000 / 32)"
    if "tps \<noteq> 0" "dbl (gap / 1000)" "dbl (of_int (t + d))" "dbl (of_int (t + d) / tps)"
      "dbl (gap / 1000 + of_int (t + d) / tps)" "dbl (0.5 / tps)" "dbl endSec"
      "dbl (endSec * 1000)" "dbl (endSec * 1000 / 32)"
    using that unfolding endSec_def end_pos_def
    by (simp add: bnd_def fdiv_def fin_dbl)
  have 5: "start_frame gap tps t = Inl ZeroDivisionError"
    if "tps = 0" "\<bar>fl (gap / 1000)\<bar> < 2 ^ 1024" "\<bar>fl (of_int t)\<bar> < 2 ^ 1024"
    using that by (simp add: start_frame_def start_pos_def bnd_def fdiv_def fin_def Let_def)
  have 6: "ticks_per_second (Some 120) = Inr 8"
    by (simp add: ticks_per_second_def float_eval split del: if_split)
  have 7: "start_frame 0 8 0 = Inr (- 1) \<and> end_frame 0 8 0 4 = Inr 17 \<and>
         start_frame 285 4 0 = Inr 4"
    by (simp add: float_eval split del: if_split)
  show ?thesis using 1 2 3 4 5 6 7 by blast
qed

theorem frames_truncate_toward_zero_witness:
  "dbl (- (1 / 16)) \<and> dbl (- (125 / 2)) \<and> dbl (- (125 / 64)) \<and> dbl (1125 / 64) \<and>
   start_pos 0 8 0 = Inr (- (125 / 64)) \<and> start_frame 0 8 0 = Inr (- 1) \<and>
   end_pos 0 8 0 4 = Inr (1125 / 64) \<and> end_frame 0 8 0 4 = Inr 17 \<and>
   start_frame 64 0 7 = Inl ZeroDivisionError"
  using frames_truncate_toward_zero[where gap = 0 and tps = 8 and t = 0 and d = 4]
    frames_truncate_toward_zero[where gap = 64 and tps = 0 and t = 7 and d = 1]
  by (simp add: dbl_def float_eval split del: if_split)

text \<open>
  C2 as stated fails at its own fixture: the start index of the code is \<open>-1\<close>, the floor
  of \<open>-1.953125\<close> is \<open>-2\<close>.
\<close>

theorem start_frame_is_not_floor:
  "start_frame 0 8 0 = Inr (- 1) \<and>
   \<lfloor>((0::real) / 1000 + of_int 0 / 8 - 0.5 / 8) * 1000 / 32\<rfloor> = - 2"
  by (simp add: float_eval split del: if_split)




subsection \<open>The text field of a note line\<close>

lemma six_elems:
  assumes "length xs = 6"
  shows "\<exists>a b c d e f. xs = [a, b, c, d, e, f]"
proof -
  have "length xs = Suc (Suc (Suc (Suc (Suc (Suc 0)))))" using assms by simp
  then show ?thesis by (auto simp: length_Suc_conv)
qed

lemma split_sp_nospace: "CHR '' '' \<notin> set s \<Longrightarrow> split_sp s = [s]"
  by (induction s) auto

lemma split_sp_append:
  "CHR '' '' \<notin> set a \<Longrightarrow> split_sp (a @ CHR '' '' # b) = a # split_sp b"
  by (induction a) auto

text \<open>
  A line that splits into six pieces is stored with five fields, the fifth being a space
  followed by the sixth piece. When the fifth piece is empty this is the fifth and sixth
  pieces joined by a space. So a line \<^verbatim>\<open>type start duration pitch text\<close> whose text
  begins with a space and has no other space, and whose first four fields have none, is
  stored with its text unchanged.
\<close>

theorem six_tokens_keep_last:
  "(length (split_sp line) = 6 \<longrightarrow>
      parse_line line = Inr (take 4 (split_sp line) @ [CHR '' '' # split_sp line ! 5])) \<and>
   (length (split_sp line) = 6 \<and> split_sp line ! 4 = [] \<longrightarrow>
      parse_line line
        = Inr (take 4 (split_sp line) @ [split_sp line ! 4 @ '' '' @ split_sp line ! 5])) \<and>
   (CHR '' '' \<notin> set t0 \<union> set t1 \<union> set t2 \<union> set t3 \<union> set rest \<longrightarrow>
      parse_line (t0 @ '' '' @ t1 @ '' '' @ t2 @ '' '' @ t3 @ '' '' @ ('' '' @ rest))
        = Inr [t0, t1, t2, t3, '' '' @ rest])"
proof -
  have six: "parse_line line = Inr (take 4 (split_sp line) @ [CHR '' '' # split_sp line ! 5])"
    if len: "length (split_sp line) = 6"
  proof -
    obtain a b c d e f where sp: "split_sp line = [a, b, c, d, e, f]"
      using six_elems[OF len] by blast
    show ?thesis by (simp add: parse_line_def sp)
  qed
  have lead: "parse_line (t0 @ '' '' @ t1 @ '' '' @ t2 @ '' '' @ t3 @ '' '' @ ('' '' @ rest))
        = Inr [t0, t1, t2, t3, '' '' @ rest]"
    if "CHR '' '' \<notin> set t0 \<union> set t1 \<union> set t2 \<union> set t3 \<union> set rest"
  proof -
    have "split_sp (t0 @ '' '' @ t1 @ '' '' @ t2 @ '' '' @ t3 @ '' '' @ ('' '' @ rest))
        = [t0, t1, t2, t3, [], rest]"
      using that by (simp add: split_sp_append split_sp_nospace)
    then show ?thesis by (simp add: parse_line_def)
  qed
  show ?thesis using six lead by simp
qed

theorem six_tokens_keep_last_witness:
  "length (split_sp '': 0 4 0  la\<newline>'') = 6 \<and> split_sp '': 0 4 0  la\<newline>'' ! 4 = [] \<and>
   parse_line '': 0 4 0  la\<newline>'' = Inr ['':'', ''0'', ''4'', ''0'', '' la\<newline>'']"
  using six_tokens_keep_last[where line = "'': 0 4 0  la\<newline>''" and ?t0.0 = "'':''" and ?t1.0 = "''0''"
      and ?t2.0 = "''4''" and ?t3.0 = "''0''" and rest = "''la\<newline>''"]
  by simp

text \<open>
  C4. A line of six pieces whose fifth piece is not empty loses that piece: the stored
  text is a space and the sixth piece, not the fifth and sixth pieces joined by a space.
  The text \<^verbatim>\<open>hello world\<close> is stored as \<^verbatim>\<open> world\<close>, and the syllable \<^verbatim>\<open>la\<close>
  followed by a space (the word divider written after the syllable) is stored as a space
  and the line terminator.
\<close>

theorem six_tokens_drop_fifth:
  "split_sp '': 0 4 0 hello world\<newline>'' = ['':'', ''0'', ''4'', ''0'', ''hello'', ''world\<newline>''] \<and>
   parse_line '': 0 4 0 hello world\<newline>'' = Inr ['':'', ''0'', ''4'', ''0'', '' world\<newline>''] \<and>
   '' world\<newline>'' \<noteq> ''hello'' @ '' '' @ ''world\<newline>'' \<and>
   split_sp '': 0 4 0 la \<newline>'' = ['':'', ''0'', ''4'', ''0'', ''la'', ''\<newline>''] \<and>
   parse_line '': 0 4 0 la \<newline>'' = Inr ['':'', ''0'', ''4'', ''0'', '' \<newline>''] \<and>
   '' \<newline>'' \<noteq> ''la'' @ '' '' @ ''\<newline>''"
  by (simp add: parse_line_def)

subsection \<open>The stages of a run\<close>

lemma split_sp_not_Nil: "split_sp s \<noteq> []"
  by (induction s) (auto split: list.splits)

lemma load_meta_Inr:
  "load_meta lines = Inr m \<Longrightarrow> [] \<notin> set lines \<and> m = filter (\<lambda>l. take 1 l = ''#'') lines"
  by (induction lines arbitrary: m) (auto split: list.splits sum.splits)

lemma load_meta_total:
  "[] \<notin> set lines \<Longrightarrow> load_meta lines = Inr (filter (\<lambda>l. take 1 l = ''#'') lines)"
  by (induction lines) (auto split: list.splits sum.splits)

lemma load_lyrics_Inr:
  "load_lyrics lines = Inr ly \<Longrightarrow>
     list_all2 (\<lambda>l f. parse_line l = Inr f) (filter (\<lambda>l. take 1 l \<noteq> ''#'') lines) ly"
  by (induction lines arbitrary: ly) (auto split: list.splits sum.splits if_splits)

lemma parse_line_cases:
  "parse_line l = (if 6 < length (split_sp l) then Inl (InvalidFormat l)
                   else Inr (if length (split_sp l) = 6
                             then (butlast (split_sp l))[4 := CHR '' '' # last (split_sp l)]
                             else split_sp l))"
  by (simp add: parse_line_def Let_def)

lemma load_lyrics_total:
  assumes "[] \<notin> set lines" "\<forall>l\<in>set lines. take 1 l \<noteq> ''#'' \<longrightarrow> length (split_sp l) \<le> 6"
  shows "\<exists>ly. load_lyrics lines = Inr ly \<and>
           (\<forall>l\<in>set lines. take 1 l \<noteq> ''#'' \<longrightarrow> (\<exists>f. parse_line l = Inr f \<and> f \<in> set ly))"
  using assms
proof (induction lines)
  case Nil
  then show ?case by simp
next
  case (Cons l lines)
  then obtain ly where ly: "load_lyrics lines = Inr ly"
    "\<forall>l\<in>set lines. take 1 l \<noteq> ''#'' \<longrightarrow> (\<exists>f. parse_line l = Inr f \<and> f \<in> set ly)"
    by auto
  from Cons.prems obtain c cs where l: "l = c # cs" by (cases l) auto
  show ?case
  proof (cases "c = CHR ''#''")
    case True
    then show ?thesis using ly l by auto
  next
    case False
    then have "length (split_sp l) \<le> 6" using Cons.prems l by auto
    then obtain f where f: "parse_line l = Inr f" by (auto simp: parse_line_cases)
    have "load_lyrics (l # lines) = Inr (f # ly)" using False l f ly by simp
    then show ?thesis using ly f False l by auto
  qed
qed

lemma load_lyrics_first_bad:
  assumes "[] \<notin> set lines" "\<exists>l\<in>set lines. take 1 l \<noteq> ''#'' \<and> 6 < length (split_sp l)"
  shows "\<exists>pre l post. lines = pre @ l # post \<and>
           (\<forall>p\<in>set pre. take 1 p = ''#'' \<or> length (split_sp p) \<le> 6) \<and>
           take 1 l \<noteq> ''#'' \<and> 6 < length (split_sp l) \<and>
           load_lyrics lines = Inl (InvalidFormat l)"
  using assms
proof (induction lines)
  case Nil
  then show ?case by simp
next
  case (Cons l lines)
  from Cons.prems obtain c cs where l: "l = c # cs" by (cases l) auto
  show ?case
  proof (cases "take 1 l \<noteq> ''#'' \<and> 6 < length (split_sp l)")
    case True
    then have "load_lyrics (l # lines) = Inl (InvalidFormat l)"
      using l by (auto simp: parse_line_cases)
    then have "l # lines = [] @ l # lines \<and>
           (\<forall>p\<in>set []. take 1 p = ''#'' \<or> length (split_sp p) \<le> 6) \<and>
           take 1 l \<noteq> ''#'' \<and> 6 < length (split_sp l) \<and>
           load_lyrics (l # lines) = Inl (InvalidFormat l)"
      using True by simp
    then show ?thesis by blast
  next
    case False
    then have "\<exists>l\<in>set lines. take 1 l \<noteq> ''#'' \<and> 6 < length (split_sp l)"
      using Cons.prems by auto
    then obtain pre l' post where l': "lines = pre @ l' # post"
      "\<forall>p\<in>set pre. take 1 p = ''#'' \<or> length (split_sp p) \<le> 6"
      "take 1 l' \<noteq> ''#''" "6 < length (split_sp l')"
      "load_lyrics lines = Inl (InvalidFormat l')"
      using Cons.IH Cons.prems by auto
    have "load_lyrics (l # lines) = Inl (InvalidFormat l')"
      using False l l'(5) by (auto simp: parse_line_cases)
    moreover have "\<forall>p\<in>set (l # pre). take 1 p = ''#'' \<or> length (split_sp p) \<le> 6"
      using False l'(2) by auto
    moreover have "l # lines = (l # pre) @ l' # post" using l'(1) by simp
    ultimately show ?thesis using l'(3,4) by blast
  qed
qed

lemma for_each_length: "for_each f xs = Inr ys \<Longrightarrow> length ys = length xs"
  by (induction xs arbitrary: ys) (auto split: sum.splits)

lemma for_each_fails: "x \<in> set xs \<Longrightarrow> f x = Inl e \<Longrightarrow> \<exists>e'. for_each f xs = Inl e'"
  by (induction xs) (auto split: sum.splits)

lemma read_tag_other: "take 4 l \<noteq> tag \<Longrightarrow> read_tag pf tag l cur = Inr cur"
  by (simp add: read_tag_def)

lemma scan_tags_no_bpm:
  "\<forall>l\<in>set ms. take 4 l \<noteq> ''#BPM'' \<Longrightarrow> scan_tags pf ms bpm gap = Inr (b, g) \<Longrightarrow> b = bpm"
  by (induction ms arbitrary: gap) (auto simp: read_tag_other split: sum.splits)

lemma scan_tags_no_gap:
  "\<forall>l\<in>set ms. take 4 l \<noteq> ''#GAP'' \<Longrightarrow> scan_tags pf ms bpm gap = Inr (b, g) \<Longrightarrow> g = gap"
  by (induction ms arbitrary: bpm) (auto simp: read_tag_other split: sum.splits)

lemma scan_tags_bpm_only:
  assumes "\<forall>l\<in>set ms. take 4 l \<noteq> ''#GAP''"
    and "\<forall>l\<in>set ms. take 4 l = ''#BPM'' \<longrightarrow> pf (drop 5 l) \<noteq> None"
  shows "\<exists>b. scan_tags pf ms bpm gap = Inr (b, gap) \<and>
           ((bpm \<noteq> None \<or> (\<exists>l\<in>set ms. take 4 l = ''#BPM'')) \<longrightarrow> b \<noteq> None)"
  using assms
proof (induction ms arbitrary: bpm)
  case Nil
  then show ?case by simp
next
  case (Cons l ms)
  show ?case
  proof (cases "take 4 l = ''#BPM''")
    case True
    then obtain v where v: "pf (drop 5 l) = Some v" using Cons.prems by auto
    have "scan_tags pf (l # ms) bpm gap = scan_tags pf ms (Some v) gap"
      using True v Cons.prems by (simp add: read_tag_def)
    then show ?thesis using Cons.IH[of "Some v"] Cons.prems by auto
  next
    case False
    have "scan_tags pf (l # ms) bpm gap = scan_tags pf ms bpm gap"
      using False Cons.prems by (simp add: read_tag_def)
    then show ?thesis using Cons.IH[of bpm] Cons.prems False by auto
  qed
qed

lemma pitch_missing_tag:
  assumes "(\<forall>l\<in>set ms. take 4 l \<noteq> ''#BPM'') \<or> (\<forall>l\<in>set ms. take 4 l \<noteq> ''#GAP'')"
  shows "\<exists>e. pitch pf pint thr ms ly out = Inl e"
proof (cases "scan_tags pf ms None None")
  case (Inl e)
  then show ?thesis by (simp add: pitch_def)
next
  case (Inr bg)
  obtain b g where bg: "bg = (b, g)" by (cases bg)
  from assms show ?thesis
  proof
    assume "\<forall>l\<in>set ms. take 4 l \<noteq> ''#BPM''"
    then have "b = None" using scan_tags_no_bpm Inr bg by blast
    then show ?thesis using Inr bg by (simp add: pitch_def ticks_per_second_def)
  next
    assume "\<forall>l\<in>set ms. take 4 l \<noteq> ''#GAP''"
    then have "g = None" using scan_tags_no_gap Inr bg by blast
    then show ?thesis using Inr bg
      by (cases b) (simp_all add: pitch_def ticks_per_second_def)
  qed
qed

lemma pitch_no_gap:
  assumes "\<forall>l\<in>set ms. take 4 l \<noteq> ''#GAP''"
    and "\<forall>l\<in>set ms. take 4 l = ''#BPM'' \<longrightarrow> pf (drop 5 l) \<noteq> None"
    and "\<exists>l\<in>set ms. take 4 l = ''#BPM''"
  shows "pitch pf pint thr ms ly out = Inl NoGapTag"
proof -
  obtain b where "scan_tags pf ms None None = Inr (b, None)" "b \<noteq> None"
    using scan_tags_bpm_only[OF assms(1,2), of None None] assms(3) by auto
  then show ?thesis by (auto simp: pitch_def ticks_per_second_def)
qed

lemma main_load_fails:
  "loadFile chart = Inl e \<Longrightarrow>
     main pf pint thr chart audio = \<lparr>stages = [Reading], outfile = None, outcome = Some e\<rparr>"
  by (simp add: main_def)

lemma main_audio_fails:
  "loadFile chart = Inr (ms, ly) \<Longrightarrow> loadAudio audio = Inl e \<Longrightarrow>
     main pf pint thr chart audio
       = \<lparr>stages = [Reading, LoadingAudio], outfile = None, outcome = Some e\<rparr>"
  by (simp add: main_def)

lemma main_pitch_fails:
  "loadFile chart = Inr (ms, ly) \<Longrightarrow> loadAudio audio = Inr out \<Longrightarrow>
   pitch pf pint thr ms ly out = Inl e \<Longrightarrow>
     main pf pint thr chart audio
       = \<lparr>stages = [Reading, LoadingAudio, PreparingAudio, Analyzing, Pitching],
          outfile = None, outcome = Some e\<rparr>"
  by (simp add: main_def)

lemma main_written:
  "loadFile chart = Inr (ms, ly) \<Longrightarrow> loadAudio audio = Inr out \<Longrightarrow>
   pitch pf pint thr ms ly out = Inr lp \<Longrightarrow>
     main pf pint thr chart audio
       = \<lparr>stages = [Reading, LoadingAudio, PreparingAudio, Analyzing, Pitching, Writing],
          outfile = Some (fst (writeFile ms lp)), outcome = snd (writeFile ms lp)\<rparr>"
  by (simp add: main_def split: prod.splits)

text \<open>
  C9. When a run completes, the strings written to the destination are the header lines
  of the chart (the lines whose first character is \<^verbatim>\<open>#\<close>), each as it was read and
  in the order of the chart, followed by one string per other line of the chart.
\<close>

theorem metadata_written_first:
  assumes ok: "outcome (main pfloat pint thr (Contents lines) audio) = None"
  shows "\<exists>notes.
           outfile (main pfloat pint thr (Contents lines) audio)
             = Some (filter (\<lambda>l. take 1 l = ''#'') lines @ notes) \<and>
           length notes = length (filter (\<lambda>l. take 1 l \<noteq> ''#'') lines)"
proof -
  let ?r = "main pfloat pint thr (Contents lines) audio"
  obtain ms ly where load: "loadFile (Contents lines) = Inr (ms, ly)"
    using ok by (cases "loadFile (Contents lines)") (auto simp: main_load_fails)
  have ms: "ms = filter (\<lambda>l. take 1 l = ''#'') lines"
    and ly: "list_all2 (\<lambda>l f. parse_line l = Inr f) (filter (\<lambda>l. take 1 l \<noteq> ''#'') lines) ly"
    using load load_meta_Inr[of lines] load_lyrics_Inr[of lines]
    by (auto simp: loadFile_def split: sum.splits)
  obtain out where audio: "loadAudio audio = Inr out"
    using ok load by (cases "loadAudio audio") (auto simp: main_audio_fails)
  obtain lp where lp: "pitch pfloat pint thr ms ly out = Inr lp"
    using ok load audio by (cases "pitch pfloat pint thr ms ly out") (auto simp: main_pitch_fails)
  have r: "outfile ?r = Some (fst (writeFile ms lp))" "outcome ?r = snd (writeFile ms lp)"
    by (simp_all add: main_written[OF load audio lp])
  obtain ns where wr: "for_each write_line lp = Inr ns"
    using ok r(2) by (cases "for_each write_line lp") (auto simp: writeFile_def)
  have "length lp = length ly"
    using lp by (auto simp: pitch_def for_each_length split: sum.splits prod.splits if_splits option.splits)
  then have "length ns = length (filter (\<lambda>l. take 1 l \<noteq> ''#'') lines)"
    using for_each_length[OF wr] list_all2_lengthD[OF ly] by simp
  moreover have "outfile ?r = Some (filter (\<lambda>l. take 1 l = ''#'') lines @ ns)"
    using r(1) wr ms by (simp add: writeFile_def)
  ultimately show ?thesis by blast
qed

theorem metadata_written_first_witness:
  "outcome (main (\<lambda>s. if s = ''120\<newline>'' then Some 120 else if s = ''0\<newline>'' then Some 0 else None)
      (\<lambda>s. if s = ''0'' then Some 0 else if s = ''4'' then Some 4 else None) 0.85
      (Contents [''#TITLE:Song\<newline>'', ''#BPM:120\<newline>'', '': 0 4 7 la\<newline>'', ''#GAP:0\<newline>'', ''E\<newline>''])
      (Contents \<lparr>mo_pitch = [0.5, 0.5], mo_uncertainty = [0.9, 0.9]\<rparr>)) = None \<and>
   outfile (main (\<lambda>s. if s = ''120\<newline>'' then Some 120 else if s = ''0\<newline>'' then Some 0 else None)
      (\<lambda>s. if s = ''0'' then Some 0 else if s = ''4'' then Some 4 else None) 0.85
      (Contents [''#TITLE:Song\<newline>'', ''#BPM:120\<newline>'', '': 0 4 7 la\<newline>'', ''#GAP:0\<newline>'', ''E\<newline>''])
      (Contents \<lparr>mo_pitch = [0.5, 0.5], mo_uncertainty = [0.9, 0.9]\<rparr>))
     = Some [''#TITLE:Song\<newline>'', ''#BPM:120\<newline>'', ''#GAP:0\<newline>'', '': 0 4 0 la\<newline>'', ''E\<newline>'']"
  using metadata_written_first[where pfloat = "\<lambda>s. if s = ''120\<newline>'' then Some 120 else if s = ''0\<newline>'' then Some 0 else None"
      and pint = "\<lambda>s. if s = ''0'' then Some 0 else if s = ''4'' then Some 4 else None" and thr = "0.85"
      and lines = "[''#TITLE:Song\<newline>'', ''#BPM:120\<newline>'', '': 0 4 7 la\<newline>'', ''#GAP:0\<newline>'', ''E\<newline>'']"
      and audio = "Contents \<lparr>mo_pitch = [0.5, 0.5], mo_uncertainty = [0.9, 0.9]\<rparr>"]
  by (simp add: main_def loadFile_def parse_line_def loadAudio_def pitch_def read_tag_def
      ticks_per_second_def float_eval pitch_line_def startswith_def
      note_of_frames_def py_slice_def slice_index_def mask_select_def str_int_def
      writeFile_def write_line_def split del: if_split)

text \<open>
  C5 (amended). A chart that parses and has no \<^verbatim>\<open>#BPM\<close> line, or no \<^verbatim>\<open>#GAP\<close>
  line, ends the run with an error and without a destination file. The tags are looked at
  in the pitching stage: when the audio loads, the run ends there, after the audio has
  been loaded, prepared and analysed. When there are \<^verbatim>\<open>#BPM\<close> lines, all with a
  readable value, and no \<^verbatim>\<open>#GAP\<close> line, the error is the missing-GAP exit.
\<close>

theorem missing_tag_stops_pitching:
  assumes load: "loadFile chart = Inr (metaData, lyrics)"
    and missing: "(\<forall>l\<in>set metaData. take 4 l \<noteq> ''#BPM'') \<or>
                  (\<forall>l\<in>set metaData. take 4 l \<noteq> ''#GAP'')"
  shows "outcome (main pfloat pint thr chart audio) \<noteq> None \<and>
         outfile (main pfloat pint thr chart audio) = None \<and>
         (\<forall>out. audio = Contents out \<longrightarrow>
            stages (main pfloat pint thr chart audio)
              = [Reading, LoadingAudio, PreparingAudio, Analyzing, Pitching] \<and>
            ((\<exists>l\<in>set metaData. take 4 l = ''#BPM'') \<and>
             (\<forall>l\<in>set metaData. take 4 l = ''#BPM'' \<longrightarrow> pfloat (drop 5 l) \<noteq> None) \<longrightarrow>
               outcome (main pfloat pint thr chart audio) = Some NoGapTag))"
proof -
  let ?r = "main pfloat pint thr chart audio"
  have loaded: "stages ?r = [Reading, LoadingAudio, PreparingAudio, Analyzing, Pitching] \<and>
      outfile ?r = None \<and> outcome ?r \<noteq> None \<and>
      ((\<exists>l\<in>set metaData. take 4 l = ''#BPM'') \<and>
       (\<forall>l\<in>set metaData. take 4 l = ''#BPM'' \<longrightarrow> pfloat (drop 5 l) \<noteq> None) \<longrightarrow>
         outcome ?r = Some NoGapTag)"
    if audio: "loadAudio audio = Inr out" for out
  proof -
    obtain e where e: "pitch pfloat pint thr metaData lyrics out = Inl e"
      using pitch_missing_tag[OF missing] by blast
    have r: "?r = \<lparr>stages = [Reading, LoadingAudio, PreparingAudio, Analyzing, Pitching],
                  outfile = None, outcome = Some e\<rparr>"
      by (rule main_pitch_fails[OF load audio e])
    have "e = NoGapTag"
      if bpm: "\<exists>l\<in>set metaData. take 4 l = ''#BPM''"
        "\<forall>l\<in>set metaData. take 4 l = ''#BPM'' \<longrightarrow> pfloat (drop 5 l) \<noteq> None"
    proof -
      have "\<forall>l\<in>set metaData. take 4 l \<noteq> ''#GAP''" using missing bpm(1) by blast
      then show ?thesis using pitch_no_gap[OF _ bpm(2,1)] e by simp
    qed
    then show ?thesis using r by simp
  qed
  show ?thesis
  proof (cases "loadAudio audio")
    case (Inl e)
    then have "\<forall>out. audio \<noteq> Contents out" by (auto simp: loadAudio_def)
    then show ?thesis using main_audio_fails[OF load Inl] by simp
  next
    case (Inr out)
    then have "\<forall>out'. audio = Contents out' \<longrightarrow> out' = out"
      by (auto simp: loadAudio_def)
    then show ?thesis using loaded[OF Inr] by blast
  qed
qed

theorem missing_tag_stops_pitching_witness:
  "loadFile (Contents [''#BPM:120\<newline>'', '': 0 4 7 la\<newline>'', ''E\<newline>''])
     = Inr ([''#BPM:120\<newline>''], [['':'', ''0'', ''4'', ''7'', ''la\<newline>''], [''E\<newline>'']]) \<and>
   main (\<lambda>s. if s = ''120\<newline>'' then Some 120 else if s = ''0\<newline>'' then Some 0 else None) (\<lambda>s. if s = ''0'' then Some 0 else if s = ''4'' then Some 4 else None) 0.85
      (Contents [''#BPM:120\<newline>'', '': 0 4 7 la\<newline>'', ''E\<newline>''])
      (Contents \<lparr>mo_pitch = [0.5, 0.5], mo_uncertainty = [0.1, 0.1]\<rparr>)
     = \<lparr>stages = [Reading, LoadingAudio, PreparingAudio, Analyzing, Pitching],
        outfile = None, outcome = Some NoGapTag\<rparr>"
  using missing_tag_stops_pitching[where pfloat = "(\<lambda>s. if s = ''120\<newline>'' then Some 120 else if s = ''0\<newline>'' then Some 0 else None)" and pint = "(\<lambda>s. if s = ''0'' then Some 0 else if s = ''4'' then Some 4 else None)" and thr = "0.85"
      and chart = "Contents [''#BPM:120\<newline>'', '': 0 4 7 la\<newline>'', ''E\<newline>'']"
      and metaData = "[''#BPM:120\<newline>'']"
      and lyrics = "[['':'', ''0'', ''4'', ''7'', ''la\<newline>''], [''E\<newline>'']]"
      and audio = "Contents \<lparr>mo_pitch = [0.5, 0.5], mo_uncertainty = [0.1, 0.1]\<rparr>"]
  by (simp add: main_def loadFile_def parse_line_def loadAudio_def pitch_def read_tag_def
      ticks_per_second_def float_eval pitch_line_def startswith_def
      note_of_frames_def py_slice_def slice_index_def mask_select_def str_int_def
      writeFile_def write_line_def split del: if_split)

text \<open>
  C5 as stated fails: the missing tag is found after the audio stages; and without a
  \<^verbatim>\<open>#BPM\<close> line the run ends in the \<^verbatim>\<open>TypeError\<close> of \<^verbatim>\<open>int(None)\<close>.
\<close>

theorem missing_tag_found_after_audio:
  "main (\<lambda>s. if s = ''120\<newline>'' then Some 120 else if s = ''0\<newline>'' then Some 0 else None) (\<lambda>s. if s = ''0'' then Some 0 else if s = ''4'' then Some 4 else None) 0.85
      (Contents [''#BPM:120\<newline>'', '': 0 4 7 la\<newline>'', ''E\<newline>''])
      (Contents \<lparr>mo_pitch = [0.5, 0.5], mo_uncertainty = [0.1, 0.1]\<rparr>)
     = \<lparr>stages = [Reading, LoadingAudio, PreparingAudio, Analyzing, Pitching],
        outfile = None, outcome = Some NoGapTag\<rparr> \<and>
   main (\<lambda>s. if s = ''120\<newline>'' then Some 120 else if s = ''0\<newline>'' then Some 0 else None) (\<lambda>s. if s = ''0'' then Some 0 else if s = ''4'' then Some 4 else None) 0.85
      (Contents [''#GAP:0\<newline>'', '': 0 4 7 la\<newline>'', ''E\<newline>''])
      (Contents \<lparr>mo_pitch = [0.5, 0.5], mo_uncertainty = [0.1, 0.1]\<rparr>)
     = \<lparr>stages = [Reading, LoadingAudio, PreparingAudio, Analyzing, Pitching],
        outfile = None, outcome = Some TypeError\<rparr>"
  by (simp add: main_def loadFile_def parse_line_def loadAudio_def pitch_def read_tag_def
      ticks_per_second_def float_eval pitch_line_def startswith_def
      note_of_frames_def py_slice_def slice_index_def mask_select_def str_int_def
      writeFile_def write_line_def split del: if_split)

text \<open>
  C7 (amended). For a chart without empty lines: if some line that is not a header line
  splits into more than six pieces, loadFile exits on the first such line (every line
  before it is a header line or has at most six pieces), naming it, before the audio is
  loaded and with no destination file. A line that is not a header line, splits into
  fewer than five pieces and starts with neither \<^verbatim>\<open>-\<close> nor \<^verbatim>\<open>E\<close> is accepted by
  loadFile; the loop of the pitching stage rejects it as an invalid line, so the run ends
  with an error and no destination file, and when the audio loads it ends in the
  pitching stage, after the audio stages.
\<close>

theorem field_count_checks:
  assumes lines: "[] \<notin> set lines"
  shows "((\<exists>l\<in>set lines. take 1 l \<noteq> ''#'' \<and> 6 < length (split_sp l)) \<longrightarrow>
            (\<exists>pre l post. lines = pre @ l # post \<and>
               (\<forall>p\<in>set pre. take 1 p = ''#'' \<or> length (split_sp p) \<le> 6) \<and>
               take 1 l \<noteq> ''#'' \<and> 6 < length (split_sp l) \<and>
               main pfloat pint thr (Contents lines) audio
                 = \<lparr>stages = [Reading], outfile = None, outcome = Some (InvalidFormat l)\<rparr>)) \<and>
         ((\<forall>l\<in>set lines. take 1 l \<noteq> ''#'' \<longrightarrow> length (split_sp l) \<le> 6) \<and>
          l \<in> set lines \<and> take 1 l \<noteq> ''#'' \<and> length (split_sp l) < 5 \<and>
          \<not> startswith (split_sp l ! 0) ''-'' \<and> \<not> startswith (split_sp l ! 0) ''E'' \<longrightarrow>
            (\<exists>metaData lyrics. loadFile (Contents lines) = Inr (metaData, lyrics) \<and>
               split_sp l \<in> set lyrics) \<and>
            pitch_line pint thr gap tps pitch_arr confidence (split_sp l)
              = Inl (InvalidLine (split_sp l)) \<and>
            outcome (main pfloat pint thr (Contents lines) audio) \<noteq> None \<and>
            outfile (main pfloat pint thr (Contents lines) audio) = None \<and>
            (\<forall>out. audio = Contents out \<longrightarrow>
               stages (main pfloat pint thr (Contents lines) audio)
                 = [Reading, LoadingAudio, PreparingAudio, Analyzing, Pitching]))"
proof (intro conjI impI)
  assume "\<exists>l\<in>set lines. take 1 l \<noteq> ''#'' \<and> 6 < length (split_sp l)"
  then obtain pre l' post where l': "lines = pre @ l' # post"
    "\<forall>p\<in>set pre. take 1 p = ''#'' \<or> length (split_sp p) \<le> 6"
    "take 1 l' \<noteq> ''#''" "6 < length (split_sp l')"
    "load_lyrics lines = Inl (InvalidFormat l')"
    using load_lyrics_first_bad[OF lines] by blast
  have "loadFile (Contents lines) = Inl (InvalidFormat l')"
    using l'(5) load_meta_total[OF lines] by (simp add: loadFile_def)
  then have "main pfloat pint thr (Contents lines) audio
                 = \<lparr>stages = [Reading], outfile = None, outcome = Some (InvalidFormat l')\<rparr>"
    by (rule main_load_fails)
  then show "\<exists>pre l post. lines = pre @ l # post \<and>
               (\<forall>p\<in>set pre. take 1 p = ''#'' \<or> length (split_sp p) \<le> 6) \<and>
               take 1 l \<noteq> ''#'' \<and> 6 < length (split_sp l) \<and>
               main pfloat pint thr (Contents lines) audio
                 = \<lparr>stages = [Reading], outfile = None, outcome = Some (InvalidFormat l)\<rparr>"
    using l'(1-4) by blast
next
  assume a: "(\<forall>l\<in>set lines. take 1 l \<noteq> ''#'' \<longrightarrow> length (split_sp l) \<le> 6) \<and>
          l \<in> set lines \<and> take 1 l \<noteq> ''#'' \<and> length (split_sp l) < 5 \<and>
          \<not> startswith (split_sp l ! 0) ''-'' \<and> \<not> startswith (split_sp l ! 0) ''E''"
  let ?r = "main pfloat pint thr (Contents lines) audio"
  let ?f = "split_sp l"
  obtain ly where ly: "load_lyrics lines = Inr ly"
    "\<forall>l\<in>set lines. take 1 l \<noteq> ''#'' \<longrightarrow> (\<exists>f. parse_line l = Inr f \<and> f \<in> set ly)"
    using load_lyrics_total[OF lines] a by blast
  have "parse_line l = Inr ?f" using a by (simp add: parse_line_cases)
  then have mem: "?f \<in> set ly" using ly(2) a by auto
  have load: "loadFile (Contents lines) = Inr (filter (\<lambda>l. take 1 l = ''#'') lines, ly)"
    using ly(1) load_meta_total[OF lines] by (simp add: loadFile_def)
  have bad: "pitch_line pint' thr' gap' tps' pa' cf' ?f = Inl (InvalidLine ?f)"
    for pint' thr' gap' tps' pa' cf'
    using a split_sp_not_Nil[of l] by (cases ?f) (simp_all add: pitch_line_def)
  have fails: "\<exists>e. pitch pfloat pint thr (filter (\<lambda>l. take 1 l = ''#'') lines) ly out = Inl e" for out
  proof -
    have "\<exists>e. for_each (pitch_line pint thr g' tps' pa' cf') ly = Inl e" for g' tps' pa' cf'
      by (rule for_each_fails[where f = "pitch_line pint thr g' tps' pa' cf'", OF mem bad])
    then show ?thesis
      by (auto simp: pitch_def split: sum.splits option.splits prod.splits)
  qed
  have run: "outcome ?r \<noteq> None \<and> outfile ?r = None \<and>
       (\<forall>out. audio = Contents out \<longrightarrow>
          stages ?r = [Reading, LoadingAudio, PreparingAudio, Analyzing, Pitching])"
  proof (cases "loadAudio audio")
    case (Inl e)
    then have "\<forall>out. audio \<noteq> Contents out" by (auto simp: loadAudio_def)
    then show ?thesis using main_audio_fails[OF load Inl] by simp
  next
    case (Inr out)
    obtain e where e: "pitch pfloat pint thr (filter (\<lambda>l. take 1 l = ''#'') lines) ly out = Inl e"
      using fails by blast
    show ?thesis unfolding main_pitch_fails[OF load Inr e] by simp
  qed
  show "\<exists>metaData lyrics. loadFile (Contents lines) = Inr (metaData, lyrics) \<and> ?f \<in> set lyrics"
    using load mem by blast
  show "pitch_line pint thr gap tps pitch_arr confidence ?f = Inl (InvalidLine ?f)"
    by (rule bad)
  show "outcome ?r \<noteq> None" using run by blast
  show "outfile ?r = None" using run by blast
  show "\<forall>out. audio = Contents out \<longrightarrow>
          stages ?r = [Reading, LoadingAudio, PreparingAudio, Analyzing, Pitching]"
    using run by blast
qed

theorem field_count_checks_witness:
  "main (\<lambda>s. if s = ''120\<newline>'' then Some 120 else if s = ''0\<newline>'' then Some 0 else None) (\<lambda>s. if s = ''0'' then Some 0 else if s = ''4'' then Some 4 else None) 0.85 (Contents [''#BPM:120\<newline>'', '': 0 4 7 la\<newline>'', '': 0 4 0 a b c\<newline>'', '': 5 4 0 d e f g\<newline>'']) (Contents \<lparr>mo_pitch = [0.5, 0.5], mo_uncertainty = [0.1, 0.1]\<rparr>)
     = \<lparr>stages = [Reading], outfile = None,
        outcome = Some (InvalidFormat '': 0 4 0 a b c\<newline>'')\<rparr> \<and>
   loadFile (Contents [''#BPM:120\<newline>'', ''#GAP:0\<newline>'', '': 8 2\<newline>''])
     = Inr ([''#BPM:120\<newline>'', ''#GAP:0\<newline>''], [['':'', ''8'', ''2\<newline>'']]) \<and>
   main (\<lambda>s. if s = ''120\<newline>'' then Some 120 else if s = ''0\<newline>'' then Some 0 else None) (\<lambda>s. if s = ''0'' then Some 0 else if s = ''4'' then Some 4 else None) 0.85 (Contents [''#BPM:120\<newline>'', ''#GAP:0\<newline>'', '': 8 2\<newline>'']) (Contents \<lparr>mo_pitch = [0.5, 0.5], mo_uncertainty = [0.1, 0.1]\<rparr>)
     = \<lparr>stages = [Reading, LoadingAudio, PreparingAudio, Analyzing, Pitching],
        outfile = None, outcome = Some (InvalidLine ['':'', ''8'', ''2\<newline>''])\<rparr>"
  using field_count_checks[where lines = "[''#BPM:120\<newline>'', '': 0 4 7 la\<newline>'', '': 0 4 0 a b c\<newline>'', '': 5 4 0 d e f g\<newline>'']"
      and pfloat = "(\<lambda>s. if s = ''120\<newline>'' then Some 120 else if s = ''0\<newline>'' then Some 0 else None)" and pint = "(\<lambda>s. if s = ''0'' then Some 0 else if s = ''4'' then Some 4 else None)" and thr = "0.85" and audio = "(Contents \<lparr>mo_pitch = [0.5, 0.5], mo_uncertainty = [0.1, 0.1]\<rparr>)"]
    field_count_checks[where lines = "[''#BPM:120\<newline>'', ''#GAP:0\<newline>'', '': 8 2\<newline>'']"
      and l = "'': 8 2\<newline>''"
      and pfloat = "(\<lambda>s. if s = ''120\<newline>'' then Some 120 else if s = ''0\<newline>'' then Some 0 else None)" and pint = "(\<lambda>s. if s = ''0'' then Some 0 else if s = ''4'' then Some 4 else None)" and thr = "0.85" and audio = "(Contents \<lparr>mo_pitch = [0.5, 0.5], mo_uncertainty = [0.1, 0.1]\<rparr>)"]
  by (simp add: main_def loadFile_def parse_line_def loadAudio_def pitch_def read_tag_def
      ticks_per_second_def float_eval pitch_line_def startswith_def
      note_of_frames_def py_slice_def slice_index_def mask_select_def str_int_def
      writeFile_def write_line_def split del: if_split)

text \<open>
  C7 as stated fails for a line with four fields: loadFile returns it, and the run ends
  in the pitching stage.
\<close>

theorem short_line_passes_parser:
  "loadFile (Contents [''#BPM:120\<newline>'', ''#GAP:0\<newline>'', '': 0 4 0\<newline>''])
     = Inr ([''#BPM:120\<newline>'', ''#GAP:0\<newline>''], [['':'', ''0'', ''4'', ''0\<newline>'']]) \<and>
   main (\<lambda>s. if s = ''120\<newline>'' then Some 120 else if s = ''0\<newline>'' then Some 0 else None) (\<lambda>s. if s = ''0'' then Some 0 else if s = ''4'' then Some 4 else None) 0.85 (Contents [''#BPM:120\<newline>'', ''#GAP:0\<newline>'', '': 0 4 0\<newline>'']) (Contents \<lparr>mo_pitch = [0.5, 0.5], mo_uncertainty = [0.1, 0.1]\<rparr>)
     = \<lparr>stages = [Reading, LoadingAudio, PreparingAudio, Analyzing, Pitching],
        outfile = None, outcome = Some (InvalidLine ['':'', ''0'', ''4'', ''0\<newline>''])\<rparr>"
  by (simp add: main_def loadFile_def parse_line_def loadAudio_def pitch_def read_tag_def
      ticks_per_second_def float_eval pitch_line_def startswith_def
      note_of_frames_def py_slice_def slice_index_def mask_select_def str_int_def
      writeFile_def write_line_def split del: if_split)

subsection \<open>Break and end lines\<close>

text \<open>
  C10 (amended). A line with at least two fields whose first field starts with \<^verbatim>\<open>-\<close>
  is reduced to its first two fields by the pitching stage and written as these two
  joined by a space; a line whose first field starts with \<^verbatim>\<open>E\<close> is reduced to its
  first field and written as that field. The other fields of the line, if any, are not
  written.
\<close>

theorem prefix_dispatch:
  "(startswith (line ! 0) ''-'' \<and> 2 \<le> length line \<longrightarrow>
      pitch_line pint thr gap tps pitch_arr confidence line = Inr [line ! 0, line ! 1] \<and>
      write_line [line ! 0, line ! 1] = Inr (line ! 0 @ '' '' @ line ! 1)) \<and>
   (startswith (line ! 0) ''E'' \<and> line \<noteq> [] \<longrightarrow>
      pitch_line pint thr gap tps pitch_arr confidence line = Inr [line ! 0] \<and>
      write_line [line ! 0] = Inr (line ! 0))"
proof -
  have "\<not> startswith s ''-''" if "startswith s ''E''" for s
    using that by (cases s) (simp_all add: startswith_def)
  then show ?thesis
    by (cases line) (auto simp: pitch_line_def write_line_def)
qed

theorem prefix_dispatch_witness:
  "pitch_line (\<lambda>s. if s = ''0'' then Some 0 else if s = ''4'' then Some 4 else None) 0.85 0 8 [0.5] [0.9] [''-x'', ''0'', ''4'', ''7'', ''la\<newline>''] = Inr [''-x'', ''0''] \<and>
   write_line [''-x'', ''0''] = Inr ''-x 0'' \<and>
   pitch_line (\<lambda>s. if s = ''0'' then Some 0 else if s = ''4'' then Some 4 else None) 0.85 0 8 [0.5] [0.9] [''End'', ''0'', ''4'', ''7'', ''la\<newline>''] = Inr [''End''] \<and>
   write_line [''End''] = Inr ''End''"
  using prefix_dispatch[where line = "[''-x'', ''0'', ''4'', ''7'', ''la\<newline>'']" and pint = "(\<lambda>s. if s = ''0'' then Some 0 else if s = ''4'' then Some 4 else None)"
      and thr = "0.85" and gap = 0 and tps = 8 and pitch_arr = "[0.5]" and confidence = "[0.9]"]
    prefix_dispatch[where line = "[''End'', ''0'', ''4'', ''7'', ''la\<newline>'']" and pint = "(\<lambda>s. if s = ''0'' then Some 0 else if s = ''4'' then Some 4 else None)"
      and thr = "0.85" and gap = 0 and tps = 8 and pitch_arr = "[0.5]" and confidence = "[0.9]"]
  by (simp add: startswith_def)

text \<open>
  C10 as stated fails for a line that is \<^verbatim>\<open>-\<close> alone: it has no second field, and
  the run ends with an \<^verbatim>\<open>IndexError\<close> instead of writing it.
\<close>

theorem lone_dash_not_emitted:
  "loadFile (Contents [''#BPM:120\<newline>'', ''#GAP:0\<newline>'', ''-\<newline>''])
     = Inr ([''#BPM:120\<newline>'', ''#GAP:0\<newline>''], [[''-\<newline>'']]) \<and>
   startswith ''-\<newline>'' ''-'' \<and>
   pitch_line (\<lambda>s. if s = ''0'' then Some 0 else if s = ''4'' then Some 4 else None) 0.85 0 8 [0.5] [0.9] [''-\<newline>''] = Inl IndexError \<and>
   main (\<lambda>s. if s = ''120\<newline>'' then Some 120 else if s = ''0\<newline>'' then Some 0 else None) (\<lambda>s. if s = ''0'' then Some 0 else if s = ''4'' then Some 4 else None) 0.85 (Contents [''#BPM:120\<newline>'', ''#GAP:0\<newline>'', ''-\<newline>'']) (Contents \<lparr>mo_pitch = [0.5, 0.5], mo_uncertainty = [0.1, 0.1]\<rparr>)
     = \<lparr>stages = [Reading, LoadingAudio, PreparingAudio, Analyzing, Pitching],
        outfile = None, outcome = Some IndexError\<rparr>"
  by (simp add: main_def loadFile_def parse_line_def loadAudio_def pitch_def read_tag_def
      ticks_per_second_def float_eval pitch_line_def startswith_def
      note_of_frames_def py_slice_def slice_index_def mask_select_def str_int_def
      writeFile_def write_line_def split del: if_split)

subsection \<open>Further properties\<close>

lemma fin_error: "fin x = Inl e \<Longrightarrow> e = OverflowError"
  by (simp add: fin_def Let_def split: if_splits)

lemma fdiv_error: "fdiv x y = Inl e \<Longrightarrow> e = OverflowError \<or> e = ZeroDivisionError"
  by (auto simp: fdiv_def dest: fin_error split: if_splits)

lemma bnd_error: "bnd r f = Inl e \<Longrightarrow> r = Inl e \<or> (\<exists>x. r = Inr x \<and> f x = Inl e)"
  by (cases r) (simp_all add: bnd_def)

lemma start_pos_error:
  "start_pos gap tps t = Inl e \<Longrightarrow> e = OverflowError \<or> e = ZeroDivisionError"
  unfolding start_pos_def
  by (auto dest!: bnd_error dest: fin_error fdiv_error)

lemma end_pos_error:
  "end_pos gap tps t d = Inl e \<Longrightarrow> e = OverflowError \<or> e = ZeroDivisionError"
  unfolding end_pos_def
  by (auto dest!: bnd_error dest: fin_error fdiv_error)

lemma start_frame_error:
  "start_frame gap tps t = Inl e \<Longrightarrow> e = OverflowError \<or> e = ZeroDivisionError"
  unfolding start_frame_def by (auto dest!: bnd_error dest: start_pos_error)

lemma end_frame_error:
  "end_frame gap tps t d = Inl e \<Longrightarrow> e = OverflowError \<or> e = ZeroDivisionError"
  unfolding end_frame_def by (auto dest!: bnd_error dest: end_pos_error)

lemma note_of_frames_error:
  "note_of_frames thr pa cf start stop = Inl e \<Longrightarrow>
     e = IndexError \<or> e = OverflowError \<or> e = ValueError"
  by (auto simp: note_of_frames_def mask_select_def hz2note_def split: sum.splits if_splits)

lemma pitch_line_not_NoBpmTag: "pitch_line pint thr gap tps pa cf line \<noteq> Inl NoBpmTag"
proof
  assume a: "pitch_line pint thr gap tps pa cf line = Inl NoBpmTag"
  then show False
    by (auto simp: pitch_line_def
        split: list.splits option.splits sum.splits if_splits
        dest: start_frame_error end_frame_error note_of_frames_error)
qed

lemma for_each_error: "for_each f xs = Inl e \<Longrightarrow> \<exists>x\<in>set xs. f x = Inl e"
  by (induction xs) (auto split: sum.splits)

lemma scan_tags_error: "scan_tags pf ms bpm gap = Inl e \<Longrightarrow> e = ValueError"
  by (induction ms arbitrary: bpm gap)
    (auto simp: read_tag_def split: sum.splits option.splits if_splits)

text \<open>
  The exit for a missing \<^verbatim>\<open>#BPM\<close> tag stands after \<^verbatim>\<open>int(bpm)\<close> and is never
  reached.
\<close>

theorem no_bpm_exit_unreachable: "pitch pfloat pint thr metaData lyrics out \<noteq> Inl NoBpmTag"
proof
  assume a: "pitch pfloat pint thr metaData lyrics out = Inl NoBpmTag"
  show False
  proof (cases "scan_tags pfloat metaData None None")
    case (Inl e)
    then show False using a scan_tags_error[OF Inl] by (simp add: pitch_def)
  next
    case (Inr bg)
    obtain b g where bg: "bg = (b, g)" by (cases bg)
    show False
    proof (cases b)
      case None
      then show False using a Inr bg by (simp add: pitch_def ticks_per_second_def)
    next
      case (Some bv)
      show False
      proof (cases g)
        case None
        then show False using a Inr bg Some by (simp add: pitch_def ticks_per_second_def)
      next
        case (Some gv)
        obtain tps where tps: "ticks_per_second (Some bv) = Inr tps"
          by (simp add: ticks_per_second_def)
        have "for_each (pitch_line pint thr gv tps (mo_pitch out)
                     (map (\<lambda>u. 1 - u) (mo_uncertainty out))) lyrics = Inl NoBpmTag"
          using a Inr bg \<open>b = Some bv\<close> Some tps by (simp add: pitch_def)
        then show False using for_each_error pitch_line_not_NoBpmTag by blast
      qed
    qed
  qed
qed

text \<open>
  A slice whose bounds are not negative holds the entries at the indices of the half-open
  range clamped to the length of the sequence.
\<close>

theorem slice_clamps_nonnegative_bounds:
  assumes "0 \<le> start" "0 \<le> stop"
  shows "py_slice xs start stop
           = map ((!) xs) [min (nat start) (length xs)..<min (nat stop) (length xs)]"
  using assms by (simp add: py_slice_nth slice_index_nonneg)

theorem slice_clamps_nonnegative_bounds_witness:
  "py_slice [10, 11, 12, 13 :: int] 2 17 = [12, 13] \<and> py_slice [10, 11, 12, 13 :: int] 5 17 = []"
  using slice_clamps_nonnegative_bounds[where xs = "[10, 11, 12, 13 :: int]" and start = 2 and stop = 17]
    slice_clamps_nonnegative_bounds[where xs = "[10, 11, 12, 13 :: int]" and start = 5 and stop = 17]
  by (simp add: py_slice_def slice_index_def)

end
